theory Spec2Isabelle
  imports Complex_Main "HOL-Library.Sublist"
begin

section \<open>Python values\<close>

text \<open>
  The two chatbot classes, \<^verbatim>\<open>IPLStatsPostgresChatbot\<close> (file
  \<^verbatim>\<open>ipl_chatbot_postgres.py\<close>, called the baseline variant, suffix \<open>_base\<close>) and
  \<^verbatim>\<open>IPLStatsEnhancedChatbot\<close> (file \<^verbatim>\<open>ipl_chatbot_enhanced.py\<close>, the enhanced
  variant, suffix \<open>_enh\<close>), are embedded side by side.

  A Python \<^verbatim>\<open>str\<close> is modelled as a \<open>string\<close> holding its UTF-8 bytes, so the emoji
  of the source are byte sequences. \<^verbatim>\<open>lower()\<close> and \<^verbatim>\<open>strip()\<close> are modelled on the
  ASCII range (the keywords, fences and SQL text of the source are ASCII); the case
  mappings and white space of the other Unicode planes are not modelled. Printing to
  the console is not modelled.
\<close>

subsection \<open>Strings\<close>

definition NL :: string where
  "NL = [CHR 0x0A]"

text \<open>\<^verbatim>\<open>sub in s\<close>\<close>

definition py_in :: "string \<Rightarrow> string \<Rightarrow> bool" where
  "py_in sub s = sublist sub s"

text \<open>\<^verbatim>\<open>any(word in s for word in words)\<close>\<close>

definition any_in :: "string list \<Rightarrow> string \<Rightarrow> bool" where
  "any_in words s = list_ex (\<lambda>word. py_in word s) words"

definition lower_char :: "char \<Rightarrow> char" where
  "lower_char c = (let n = (of_char c :: nat) in if 65 \<le> n \<and> n \<le> 90 then char_of (n + 32) else c)"

text \<open>\<^verbatim>\<open>s.lower()\<close>\<close>

definition py_lower :: "string \<Rightarrow> string" where
  "py_lower s = map lower_char s"

text \<open>The ASCII characters for which \<^verbatim>\<open>str.isspace\<close> holds: 0x09 to 0x0D, 0x1C to 0x1F, 0x20.\<close>

definition is_space :: "char \<Rightarrow> bool" where
  "is_space c = (let n = (of_char c :: nat) in (9 \<le> n \<and> n \<le> 13) \<or> (28 \<le> n \<and> n \<le> 32))"

text \<open>\<^verbatim>\<open>s.lstrip()\<close>, \<^verbatim>\<open>s.rstrip()\<close>, \<^verbatim>\<open>s.strip()\<close> and \<^verbatim>\<open>s.rstrip(';')\<close>\<close>

definition py_lstrip :: "string \<Rightarrow> string" where
  "py_lstrip s = dropWhile is_space s"

definition py_rstrip :: "string \<Rightarrow> string" where
  "py_rstrip s = rev (dropWhile is_space (rev s))"

definition py_strip :: "string \<Rightarrow> string" where
  "py_strip s = py_rstrip (py_lstrip s)"

definition py_rstrip_chars :: "string \<Rightarrow> string \<Rightarrow> string" where
  "py_rstrip_chars chars s = rev (dropWhile (\<lambda>c. c \<in> set chars) (rev s))"

text \<open>
  \<^verbatim>\<open>s.split(sep)\<close> for a non-empty separator: the pieces between the non-overlapping
  occurrences of \<open>sep\<close>, found from the left. \<open>acc\<close> is the piece being read. (Python
  raises \<^verbatim>\<open>ValueError\<close> on an empty separator; the source only splits at the two
  fence literals.)
\<close>

function py_split_from :: "string \<Rightarrow> string \<Rightarrow> string \<Rightarrow> string list" where
  "py_split_from sep acc s =
     (if sep \<noteq> [] \<and> prefix sep s then acc # py_split_from sep [] (drop (length sep) s)
      else (case s of [] \<Rightarrow> [acc] | c # cs \<Rightarrow> py_split_from sep (acc @ [c]) cs))"
  by pat_completeness auto
termination
  by (relation "measure (\<lambda>(sep, acc, s). length s)") (auto simp: prefix_def)

declare py_split_from.simps [simp del]

definition py_split :: "string \<Rightarrow> string \<Rightarrow> string list" where
  "py_split sep s = py_split_from sep [] s"

text \<open>\<^verbatim>\<open>sep.join(parts)\<close>\<close>

fun py_join :: "string \<Rightarrow> string list \<Rightarrow> string" where
  "py_join sep [] = []"
| "py_join sep [p] = p"
| "py_join sep (p # q # ps) = p @ sep @ py_join sep (q # ps)"

subsection \<open>Exceptions\<close>

text \<open>
  An exception is a value carrying its message; \<open>str_exc\<close> is \<^verbatim>\<open>str(e)\<close>. A computation
  that may raise has type \<open>error + 'a\<close>. \<open>OtherError\<close> stands for the exceptions of the
  LLM client and of the database driver.
\<close>

datatype error =
    IndexError string
  | KeyError string
  | TypeError string
  | ValueError string
  | OtherError string

fun str_exc :: "error \<Rightarrow> string" where
  "str_exc (IndexError m) = m"
| "str_exc (KeyError k) = [CHR 0x27] @ k @ [CHR 0x27]"
| "str_exc (TypeError m) = m"
| "str_exc (ValueError m) = m"
| "str_exc (OtherError m) = m"

definition bnd :: "error + 'a \<Rightarrow> ('a \<Rightarrow> error + 'b) \<Rightarrow> error + 'b" where
  "bnd m f = (case m of Inl e \<Rightarrow> Inl e | Inr x \<Rightarrow> f x)"

text \<open>\<^verbatim>\<open>try: body  except Exception as e: handler\<close>\<close>

definition try_except :: "error + 'a \<Rightarrow> (error \<Rightarrow> 'a) \<Rightarrow> 'a" where
  "try_except body handler = (case body of Inl e \<Rightarrow> handler e | Inr v \<Rightarrow> v)"

text \<open>\<^verbatim>\<open>xs[i]\<close> for \<open>i \<ge> 0\<close>\<close>

definition py_index :: "'a list \<Rightarrow> nat \<Rightarrow> error + 'a" where
  "py_index xs i = (if i < length xs then Inr (xs ! i) else Inl (IndexError ''list index out of range''))"

subsection \<open>Numbers as text\<close>

definition digit_char :: "nat \<Rightarrow> char" where
  "digit_char d = char_of (48 + d)"

definition is_digit :: "char \<Rightarrow> bool" where
  "is_digit c = (let n = (of_char c :: nat) in 48 \<le> n \<and> n \<le> 57)"

fun str_nat :: "nat \<Rightarrow> string" where
  "str_nat n = (if n < 10 then [digit_char n] else str_nat (n div 10) @ [digit_char (n mod 10)])"

declare str_nat.simps [simp del]

text \<open>\<^verbatim>\<open>str(i)\<close> for an integer\<close>

definition str_int :: "int \<Rightarrow> string" where
  "str_int i = (if i < 0 then ''-'' @ str_nat (nat (- i)) else str_nat (nat i))"

text \<open>
  \<^verbatim>\<open>int(s)\<close> on a string of ASCII digits; the source applies it to the four year
  literals only, and every other string is taken to raise.
\<close>

definition py_int :: "string \<Rightarrow> error + int" where
  "py_int s =
     (if s \<noteq> [] \<and> list_all is_digit s
      then Inr (foldl (\<lambda>a c. 10 * a + int (of_char c - 48)) 0 s)
      else Inl (ValueError (''invalid literal for int() with base 10: '' @ [CHR 0x27] @ s @ [CHR 0x27])))"

text \<open>Thousands separators in a string of digits, as the format option \<^verbatim>\<open>,\<close> puts them.\<close>

fun group3_rev :: "string \<Rightarrow> string" where
  "group3_rev (a # b # c # d # rest) = a # b # c # CHR '','' # group3_rev (d # rest)"
| "group3_rev ds = ds"

definition group3 :: "string \<Rightarrow> string" where
  "group3 ds = rev (group3_rev (rev ds))"

text \<open>\<^verbatim>\<open>f"{i:,}"\<close> for an integer\<close>

definition fmt_comma_int :: "int \<Rightarrow> string" where
  "fmt_comma_int i = (if i < 0 then ''-'' else []) @ group3 (str_nat (nat \<bar>i\<bar>))"

text \<open>\<^verbatim>\<open>f"{i:2d}"\<close> for a rank\<close>

definition fmt_2d :: "nat \<Rightarrow> string" where
  "fmt_2d i = (let s = str_nat i in replicate (2 - length s) CHR '' '' @ s)"

text \<open>
  A float is modelled by its exact value, a rational. Fixed-point formatting
  (\<^verbatim>\<open>.1f\<close>, \<^verbatim>\<open>.2f\<close>, \<^verbatim>\<open>,.0f\<close>) rounds that value correctly, ties to even.
\<close>

definition round_half_even :: "rat \<Rightarrow> int" where
  "round_half_even r =
     (let f = \<lfloor>r\<rfloor>; d = r - of_int f
      in if d < 1 / 2 then f else if 1 / 2 < d then f + 1 else if even f then f else f + 1)"

definition fmt_fixed :: "bool \<Rightarrow> nat \<Rightarrow> rat \<Rightarrow> string" where
  "fmt_fixed grouped d x =
     (let n = nat (round_half_even (\<bar>x\<bar> * 10 ^ d));
          ip = str_nat (n div 10 ^ d);
          fp = str_nat (n mod 10 ^ d)
      in (if x < 0 then ''-'' else []) @ (if grouped then group3 ip else ip) @
         (if d = 0 then [] else ''.'' @ replicate (d - length fp) CHR ''0'' @ fp))"

text \<open>
  \<^verbatim>\<open>f"{x:,}"\<close> for a float is its \<^verbatim>\<open>repr\<close> with the leading digits grouped; the
  argument is that \<^verbatim>\<open>repr\<close>.
\<close>

definition fmt_comma_repr :: "string \<Rightarrow> string" where
  "fmt_comma_repr s =
     (let sg = (if s \<noteq> [] \<and> hd s = CHR ''-'' then ''-'' else []);
          body = drop (length sg) s
      in sg @ group3 (takeWhile is_digit body) @ dropWhile is_digit body)"

subsection \<open>Cells and result tables\<close>

text \<open>
  A cell is a value as a row of the \<^verbatim>\<open>DataFrame\<close> presents it: an integer, a float
  (its exact value), NaN, a string or \<^verbatim>\<open>None\<close>. A result table has its column labels
  (taken to be distinct) and its rows; \<^verbatim>\<open>len(df)\<close> is the number of rows.
\<close>

datatype cell = IntV int | FloatV rat | NaNV | StrV string | NoneV

record table =
  columns :: "string list"
  rows :: "cell list list"

text \<open>\<^verbatim>\<open>pd.notna(v)\<close>\<close>

fun notna :: "cell \<Rightarrow> bool" where
  "notna NoneV = False"
| "notna NaNV = False"
| "notna v = True"

text \<open>\<^verbatim>\<open>isinstance(v, float)\<close>\<close>

fun is_float :: "cell \<Rightarrow> bool" where
  "is_float (FloatV x) = True"
| "is_float NaNV = True"
| "is_float v = False"

fun is_number :: "cell \<Rightarrow> bool" where
  "is_number (IntV i) = True"
| "is_number (FloatV x) = True"
| "is_number NaNV = True"
| "is_number v = False"

text \<open>\<^verbatim>\<open>str(v)\<close>, also \<^verbatim>\<open>f"{v}"\<close>; \<open>fr\<close> is the interpreter's \<^verbatim>\<open>repr\<close> of a float.\<close>

fun py_str :: "(rat \<Rightarrow> string) \<Rightarrow> cell \<Rightarrow> string" where
  "py_str fr (IntV i) = str_int i"
| "py_str fr (FloatV x) = fr x"
| "py_str fr NaNV = ''nan''"
| "py_str fr (StrV s) = s"
| "py_str fr NoneV = ''None''"

text \<open>\<^verbatim>\<open>f"{v:,}"\<close>\<close>

fun fmt_comma :: "(rat \<Rightarrow> string) \<Rightarrow> cell \<Rightarrow> error + string" where
  "fmt_comma fr (IntV i) = Inr (fmt_comma_int i)"
| "fmt_comma fr (FloatV x) = Inr (fmt_comma_repr (fr x))"
| "fmt_comma fr NaNV = Inr ''nan''"
| "fmt_comma fr (StrV s) = Inl (ValueError ''Cannot specify ',' with 's'.'')"
| "fmt_comma fr NoneV = Inl (TypeError ''unsupported format string passed to NoneType.__format__'')"

text \<open>\<^verbatim>\<open>f"{v:.1f}"\<close> and \<^verbatim>\<open>f"{v:.2f}"\<close> (\<open>grouped\<close> false), \<^verbatim>\<open>f"{v:,.0f}"\<close> (\<open>grouped\<close> true)\<close>

fun fmt_f :: "bool \<Rightarrow> nat \<Rightarrow> cell \<Rightarrow> error + string" where
  "fmt_f grouped d (IntV i) = Inr (fmt_fixed grouped d (of_int i))"
| "fmt_f grouped d (FloatV x) = Inr (fmt_fixed grouped d x)"
| "fmt_f grouped d NaNV = Inr ''nan''"
| "fmt_f grouped d (StrV s) = Inl (ValueError (''Unknown format code 'f' for object of type 'str'' @ [CHR 0x27]))"
| "fmt_f grouped d NoneV = Inl (TypeError ''unsupported format string passed to NoneType.__format__'')"

text \<open>\<^verbatim>\<open>v > k\<close> and \<^verbatim>\<open>v >= k\<close> for an integer literal \<open>k\<close>\<close>

fun py_gt :: "cell \<Rightarrow> int \<Rightarrow> error + bool" where
  "py_gt (IntV i) k = Inr (k < i)"
| "py_gt (FloatV x) k = Inr (of_int k < x)"
| "py_gt NaNV k = Inr False"
| "py_gt (StrV s) k = Inl (TypeError ([CHR 0x27] @ ''>' not supported between instances of 'str' and 'int'' @ [CHR 0x27]))"
| "py_gt NoneV k = Inl (TypeError ([CHR 0x27] @ ''>' not supported between instances of 'NoneType' and 'int'' @ [CHR 0x27]))"

fun py_ge :: "cell \<Rightarrow> int \<Rightarrow> error + bool" where
  "py_ge (IntV i) k = Inr (k \<le> i)"
| "py_ge (FloatV x) k = Inr (of_int k \<le> x)"
| "py_ge NaNV k = Inr False"
| "py_ge (StrV s) k = Inl (TypeError ([CHR 0x27] @ ''>=' not supported between instances of 'str' and 'int'' @ [CHR 0x27]))"
| "py_ge NoneV k = Inl (TypeError ([CHR 0x27] @ ''>=' not supported between instances of 'NoneType' and 'int'' @ [CHR 0x27]))"

text \<open>\<^verbatim>\<open>row.get(c)\<close> as an option, and \<^verbatim>\<open>row[c]\<close>, which raises on a missing label.\<close>

definition row_get :: "string list \<Rightarrow> cell list \<Rightarrow> string \<Rightarrow> cell option" where
  "row_get cols row c = map_of (zip cols row) c"

definition row_item :: "string list \<Rightarrow> cell list \<Rightarrow> string \<Rightarrow> error + cell" where
  "row_item cols row c = (case row_get cols row c of None \<Rightarrow> Inl (KeyError c) | Some v \<Rightarrow> Inr v)"

section \<open>The chatbot and its collaborators\<close>

text \<open>
  \<open>self\<close>: the LLM client, the database engine and the interpreter's \<^verbatim>\<open>repr\<close> of floats.
  \<open>llm b question\<close> is the content of the completion returned for the prompt built from
  \<open>question\<close> (the prompt is a fixed text around the question), or the exception the
  call raised. \<open>db b n query\<close> is what \<^verbatim>\<open>pd.read_sql\<close> gives for \<open>query\<close> when \<open>n\<close>
  queries were executed before it in the same call of \<^verbatim>\<open>ask\<close>. A \<open>trace\<close> lists the
  queries handed to \<^verbatim>\<open>_execute_query\<close> so far, the oldest first.
\<close>

record chatbot =
  llm :: "string \<Rightarrow> error + string"
  db :: "nat \<Rightarrow> string \<Rightarrow> error + table"
  float_repr :: "rat \<Rightarrow> string"

type_synonym trace = "string list"

section \<open>Result Formatter\<close>

definition sorry_msg :: string where
  \<open>sorry_msg = ''Sorry, I couldn't process your query. Please try rephrasing your question.''\<close>

definition no_data_msg :: string where
  \<open>no_data_msg = ''No data found matching your criteria.''\<close>

definition cricket :: string where
  "cricket = [CHR 0xF0, CHR 0x9F, CHR 0x8F, CHR 0x8F]"

definition medal1 :: string where
  "medal1 = [CHR 0xF0, CHR 0x9F, CHR 0xA5, CHR 0x87]"

definition medal2 :: string where
  "medal2 = [CHR 0xF0, CHR 0x9F, CHR 0xA5, CHR 0x88]"

definition medal3 :: string where
  "medal3 = [CHR 0xF0, CHR 0x9F, CHR 0xA5, CHR 0x89]"

text \<open>
  \<^verbatim>\<open>name = row.get('batter', row.get('bowler', str(row.iloc[0])))\<close>, then shown through
  \<^verbatim>\<open>f"{name}"\<close>. The innermost default is evaluated first and raises on a row without
  cells.
\<close>

definition row_name :: "(rat \<Rightarrow> string) \<Rightarrow> string list \<Rightarrow> cell list \<Rightarrow> error + string" where
  "row_name fr cols row =
     (case row of
        [] \<Rightarrow> Inl (IndexError ''single positional indexer is out-of-bounds'')
      | v0 # vs \<Rightarrow>
          Inr (case row_get cols row ''batter'' of
                 Some v \<Rightarrow> py_str fr v
               | None \<Rightarrow> (case row_get cols row ''bowler'' of
                            Some v \<Rightarrow> py_str fr v
                          | None \<Rightarrow> py_str fr v0)))"

text \<open>\<^verbatim>\<open>c in df.columns and pd.notna(row[c])\<close> and \<^verbatim>\<open>c in df.columns and row[c] > 0\<close>\<close>

definition has_notna :: "string list \<Rightarrow> cell list \<Rightarrow> string \<Rightarrow> error + bool" where
  "has_notna cols row c =
     (if c \<in> set cols then bnd (row_item cols row c) (\<lambda>v. Inr (notna v)) else Inr False)"

definition has_positive :: "string list \<Rightarrow> cell list \<Rightarrow> string \<Rightarrow> error + bool" where
  "has_positive cols row c =
     (if c \<in> set cols then bnd (row_item cols row c) (\<lambda>v. py_gt v 0) else Inr False)"

text \<open>\<^verbatim>\<open>f"{pre}{row[c]:,}{post}"\<close>, \<^verbatim>\<open>f"{pre}{row[c]:.1f}"\<close> and \<^verbatim>\<open>f"{pre}{row[c]}{post}"\<close>\<close>

definition part_comma :: "(rat \<Rightarrow> string) \<Rightarrow> string list \<Rightarrow> cell list \<Rightarrow> string \<Rightarrow> string \<Rightarrow> string \<Rightarrow> error + string list" where
  "part_comma fr cols row pre c post =
     bnd (row_item cols row c) (\<lambda>v. bnd (fmt_comma fr v) (\<lambda>s. Inr [pre @ s @ post]))"

definition part_1f :: "string list \<Rightarrow> cell list \<Rightarrow> string \<Rightarrow> string \<Rightarrow> error + string list" where
  "part_1f cols row pre c =
     bnd (row_item cols row c) (\<lambda>v. bnd (fmt_f False 1 v) (\<lambda>s. Inr [pre @ s]))"

definition part_str :: "(rat \<Rightarrow> string) \<Rightarrow> string list \<Rightarrow> cell list \<Rightarrow> string \<Rightarrow> string \<Rightarrow> string \<Rightarrow> error + string list" where
  "part_str fr cols row pre c post =
     bnd (row_item cols row c) (\<lambda>v. Inr [pre @ py_str fr v @ post])"

subsection \<open>Enhanced variant: \<^verbatim>\<open>_format_enhanced_dataframe\<close>\<close>

definition medal_enh :: "nat \<Rightarrow> string" where
  "medal_enh i =
     (if i = 1 then medal1 else if i = 2 then medal2 else if i = 3 then medal3
      else ''**'' @ fmt_2d i @ ''.**'')"

text \<open>The blocks that append to \<^verbatim>\<open>stats_parts\<close>, in the order of the source.\<close>

definition runs_part :: "(rat \<Rightarrow> string) \<Rightarrow> string list \<Rightarrow> cell list \<Rightarrow> error + string list" where
  "runs_part fr cols row =
     (if ''total_runs'' \<in> set cols then part_comma fr cols row ''**'' ''total_runs'' '' runs**''
      else if ''runs'' \<in> set cols then part_comma fr cols row ''**'' ''runs'' '' runs**''
      else if ''death_runs'' \<in> set cols then part_comma fr cols row ''**'' ''death_runs'' '' death runs**''
      else Inr [])"

definition rate_part :: "string list \<Rightarrow> cell list \<Rightarrow> error + string list" where
  "rate_part cols row =
     bnd (has_notna cols row ''strike_rate'') (\<lambda>t1.
       if t1 then part_1f cols row ''SR: '' ''strike_rate''
       else bnd (has_notna cols row ''death_sr_vs_pace'') (\<lambda>t2.
         if t2 then part_1f cols row ''Death SR: '' ''death_sr_vs_pace''
         else bnd (has_notna cols row ''death_sr'') (\<lambda>t3.
           if t3 then part_1f cols row ''Death SR: '' ''death_sr''
           else Inr [])))"

definition average_part :: "string list \<Rightarrow> cell list \<Rightarrow> error + string list" where
  "average_part cols row =
     bnd (has_notna cols row ''batting_average'') (\<lambda>t1.
       if t1 then bnd (has_positive cols row ''batting_average'') (\<lambda>t2.
                    if t2 then part_1f cols row ''Avg: '' ''batting_average'' else Inr [])
       else Inr [])"

definition boundary_part :: "(rat \<Rightarrow> string) \<Rightarrow> string list \<Rightarrow> cell list \<Rightarrow> error + string list" where
  "boundary_part fr cols row =
     (if ''fours'' \<in> set cols \<and> ''sixes'' \<in> set cols
      then bnd (row_item cols row ''fours'') (\<lambda>f. bnd (row_item cols row ''sixes'') (\<lambda>s.
             Inr [''4s/6s: '' @ py_str fr f @ ''/'' @ py_str fr s]))
      else if ''boundaries'' \<in> set cols then part_str fr cols row ''Boundaries: '' ''boundaries'' []
      else Inr [])"

definition wickets_part :: "(rat \<Rightarrow> string) \<Rightarrow> string list \<Rightarrow> cell list \<Rightarrow> error + string list" where
  "wickets_part fr cols row =
     (if ''wickets'' \<in> set cols then part_str fr cols row ''**'' ''wickets'' '' wickets**''
      else Inr [])"

definition bowling_avg_part :: "string list \<Rightarrow> cell list \<Rightarrow> error + string list" where
  "bowling_avg_part cols row =
     bnd (has_notna cols row ''bowling_avg'') (\<lambda>t.
       if t then part_1f cols row ''Avg: '' ''bowling_avg'' else Inr [])"

definition economy_part :: "string list \<Rightarrow> cell list \<Rightarrow> error + string list" where
  "economy_part cols row =
     bnd (has_notna cols row ''economy_rate'') (\<lambda>t.
       if t then part_1f cols row ''Eco: '' ''economy_rate'' else Inr [])"

definition sample_part :: "(rat \<Rightarrow> string) \<Rightarrow> string list \<Rightarrow> cell list \<Rightarrow> error + string list" where
  "sample_part fr cols row =
     bnd (has_positive cols row ''balls_faced'') (\<lambda>t1.
       if t1 then part_str fr cols row ''('' ''balls_faced'' '' balls)''
       else bnd (has_positive cols row ''death_balls_vs_pace'') (\<lambda>t2.
         if t2 then part_str fr cols row ''('' ''death_balls_vs_pace'' '' vs pace)''
         else bnd (has_positive cols row ''balls_bowled'') (\<lambda>t3.
           if t3 then part_str fr cols row ''('' ''balls_bowled'' '' balls)''
           else Inr [])))"

definition stats_parts :: "(rat \<Rightarrow> string) \<Rightarrow> string list \<Rightarrow> cell list \<Rightarrow> error + string list" where
  "stats_parts fr cols row =
     bnd (runs_part fr cols row) (\<lambda>p1.
     bnd (rate_part cols row) (\<lambda>p2.
     bnd (average_part cols row) (\<lambda>p3.
     bnd (boundary_part fr cols row) (\<lambda>p4.
     bnd (wickets_part fr cols row) (\<lambda>p5.
     bnd (bowling_avg_part cols row) (\<lambda>p6.
     bnd (economy_part cols row) (\<lambda>p7.
     bnd (sample_part fr cols row) (\<lambda>p8.
       Inr (p1 @ p2 @ p3 @ p4 @ p5 @ p6 @ p7 @ p8)))))))))"

text \<open>One pass of the loop body: the text appended to \<^verbatim>\<open>formatted\<close> for row \<open>i\<close>.\<close>

definition format_row_enh :: "(rat \<Rightarrow> string) \<Rightarrow> string list \<Rightarrow> nat \<Rightarrow> cell list \<Rightarrow> error + string" where
  "format_row_enh fr cols i row =
     bnd (row_name fr cols row) (\<lambda>name.
     bnd (stats_parts fr cols row) (\<lambda>parts.
       Inr (medal_enh i @ '' **'' @ name @ ''** - '' @ py_join '' | '' parts @ NL)))"

text \<open>The loop \<^verbatim>\<open>for i, (_, row) in enumerate(..., 1)\<close> with its accumulator.\<close>

fun format_rows_enh :: "(rat \<Rightarrow> string) \<Rightarrow> string list \<Rightarrow> nat \<Rightarrow> cell list list \<Rightarrow> string \<Rightarrow> error + string" where
  "format_rows_enh fr cols i [] formatted = Inr formatted"
| "format_rows_enh fr cols i (row # rest) formatted =
     bnd (format_row_enh fr cols i row) (\<lambda>line. format_rows_enh fr cols (Suc i) rest (formatted @ line))"

definition more_results :: "nat \<Rightarrow> table \<Rightarrow> string" where
  "more_results k df =
     (if k < length (rows df)
      then NL @ ''... and '' @ str_nat (length (rows df) - k) @ '' more results''
      else [])"

definition format_enhanced_dataframe :: "chatbot \<Rightarrow> table \<Rightarrow> string \<Rightarrow> string" where
  "format_enhanced_dataframe b df question_lower =
     try_except
       (bnd (format_rows_enh (float_repr b) (columns df) 1 (take 12 (rows df))
               (cricket @ '' **Cricket Analytics Results:**'' @ NL @ NL))
          (\<lambda>formatted. Inr (formatted @ more_results 12 df)))
       (\<lambda>e. ''Error formatting results: '' @ str_exc e)"

text \<open>\<^verbatim>\<open>_format_result\<close>; \<open>None\<close> is the failure signal of the executor.\<close>

definition format_result_enh :: "chatbot \<Rightarrow> table option \<Rightarrow> string \<Rightarrow> string" where
  "format_result_enh b result user_question =
     (case result of
        None \<Rightarrow> sorry_msg
      | Some df \<Rightarrow>
          if length (rows df) = 0 then no_data_msg
          else try_except (Inr (format_enhanced_dataframe b df (py_lower user_question)))
                 (\<lambda>e. ''Error formatting result: '' @ str_exc e))"

subsection \<open>Baseline variant: \<^verbatim>\<open>_format_dataframe\<close>\<close>

definition medal_base :: "nat \<Rightarrow> string" where
  "medal_base i =
     (if i = 1 then medal1 else if i = 2 then medal2 else if i = 3 then medal3
      else fmt_2d i @ ''.'')"

definition metric_name :: "string \<Rightarrow> string" where
  "metric_name question_lower =
     (if any_in [''run'', ''scorer'', ''batting''] question_lower then ''runs''
      else if any_in [''wicket'', ''bowler''] question_lower then ''wickets''
      else if py_in ''strike rate'' question_lower then ''strike rate''
      else ''points'')"

text \<open>
  \<^verbatim>\<open>df.select_dtypes(include=['number']).columns\<close>: a column has a numeric dtype when
  all its cells are numbers.
\<close>

definition numeric_cols :: "table \<Rightarrow> string list" where
  "numeric_cols df =
     map fst (filter (\<lambda>(c, j). list_all (\<lambda>row. j < length row \<and> is_number (row ! j)) (rows df))
                (zip (columns df) [0..<length (columns df)]))"

text \<open>
  The choice of \<^verbatim>\<open>main_stat\<close> and \<^verbatim>\<open>stat_name\<close>; the cell \<open>NoneV\<close> is Python's
  \<^verbatim>\<open>None\<close>, also the initial value of \<^verbatim>\<open>main_stat\<close>.
\<close>

definition main_stat :: "table \<Rightarrow> string \<Rightarrow> cell list \<Rightarrow> error + cell \<times> string" where
  "main_stat df mname row =
     (let cols = columns df in
      if ''total_runs'' \<in> set cols then bnd (row_item cols row ''total_runs'') (\<lambda>v. Inr (v, ''runs''))
      else if ''runs'' \<in> set cols then bnd (row_item cols row ''runs'') (\<lambda>v. Inr (v, ''runs''))
      else if ''wickets'' \<in> set cols then bnd (row_item cols row ''wickets'') (\<lambda>v. Inr (v, ''wickets''))
      else if ''death_runs'' \<in> set cols then bnd (row_item cols row ''death_runs'') (\<lambda>v. Inr (v, ''death runs''))
      else if ''strike_rate'' \<in> set cols \<or> ''death_sr'' \<in> set cols
        then Inr (case row_get cols row ''strike_rate'' of
                    Some v \<Rightarrow> v
                  | None \<Rightarrow> (case row_get cols row ''death_sr'' of Some v \<Rightarrow> v | None \<Rightarrow> NoneV),
                  ''SR'')
      else (case numeric_cols df of
              [] \<Rightarrow> Inr (NoneV, mname)
            | c # cs \<Rightarrow> bnd (row_item cols row c) (\<lambda>v. Inr (v, mname))))"

definition value_str :: "(rat \<Rightarrow> string) \<Rightarrow> cell \<Rightarrow> string \<Rightarrow> error + string" where
  "value_str fr v stat_name =
     (if is_float v then
        (if stat_name = ''SR'' then fmt_f False 2 v
         else bnd (py_ge v 100) (\<lambda>big. if big then fmt_f True 0 v else fmt_f False 1 v))
      else fmt_comma fr v)"

definition format_row_base :: "(rat \<Rightarrow> string) \<Rightarrow> table \<Rightarrow> string \<Rightarrow> nat \<Rightarrow> cell list \<Rightarrow> error + string" where
  "format_row_base fr df mname i row =
     bnd (row_name fr (columns df) row) (\<lambda>name.
     bnd (main_stat df mname row) (\<lambda>(v, stat_name).
       if v \<noteq> NoneV
       then bnd (value_str fr v stat_name) (\<lambda>vs.
              Inr (medal_base i @ '' **'' @ name @ ''** - '' @ vs @ '' '' @ stat_name @ NL))
       else Inr (medal_base i @ '' **'' @ name @ ''**'' @ NL)))"

fun format_rows_base :: "(rat \<Rightarrow> string) \<Rightarrow> table \<Rightarrow> string \<Rightarrow> nat \<Rightarrow> cell list list \<Rightarrow> string \<Rightarrow> error + string" where
  "format_rows_base fr df mname i [] formatted = Inr formatted"
| "format_rows_base fr df mname i (row # rest) formatted =
     bnd (format_row_base fr df mname i row)
       (\<lambda>line. format_rows_base fr df mname (Suc i) rest (formatted @ line))"

definition format_dataframe :: "chatbot \<Rightarrow> table \<Rightarrow> string \<Rightarrow> string" where
  "format_dataframe b df question_lower =
     try_except
       (bnd (format_rows_base (float_repr b) df (metric_name question_lower) 1 (take 15 (rows df))
               (cricket @ '' **Top '' @ str_nat (min (length (rows df)) 15) @ '' Results:**'' @ NL @ NL))
          (\<lambda>formatted. Inr (formatted @ more_results 15 df)))
       (\<lambda>e. ''Error formatting results: '' @ str_exc e)"

definition format_result_base :: "chatbot \<Rightarrow> table option \<Rightarrow> string \<Rightarrow> string" where
  "format_result_base b result user_question =
     (case result of
        None \<Rightarrow> sorry_msg
      | Some df \<Rightarrow>
          if length (rows df) = 0 then no_data_msg
          else try_except (Inr (format_dataframe b df (py_lower user_question)))
                 (\<lambda>e. ''Error formatting result: '' @ str_exc e))"

section \<open>Query Synthesizer\<close>

definition fence_sql :: string where
  "fence_sql = ''```sql''"

definition fence :: string where
  "fence = ''```''"

text \<open>
  The cleanup of the reply in \<^verbatim>\<open>_get_query_from_llm\<close> (the same text in both
  variants): the body of the \<^verbatim>\<open>try\<close> after the call of the client.
\<close>

definition clean_reply :: "string \<Rightarrow> error + string" where
  "clean_reply content =
     (let query_code = py_strip content in
      bnd (if py_in fence_sql query_code
           then bnd (py_index (py_split fence_sql query_code) 1) (\<lambda>after.
                bnd (py_index (py_split fence after) 0) (\<lambda>block. Inr (py_strip block)))
           else if py_in fence query_code
           then bnd (py_index (py_split fence query_code) 1) (\<lambda>block. Inr (py_strip block))
           else Inr query_code)
        (\<lambda>query_code. Inr (py_strip (py_rstrip_chars '';'' query_code))))"

text \<open>\<open>None\<close> is the failure signal \<^verbatim>\<open>return None\<close> of the \<^verbatim>\<open>except\<close> branch.\<close>

definition get_query_from_llm :: "chatbot \<Rightarrow> string \<Rightarrow> string option" where
  "get_query_from_llm b user_question =
     try_except
       (bnd (llm b user_question) (\<lambda>content. bnd (clean_reply content) (\<lambda>query_code. Inr (Some query_code))))
       (\<lambda>e. None)"

section \<open>Query Executor\<close>

definition execute_query :: "chatbot \<Rightarrow> string \<Rightarrow> trace \<Rightarrow> table option \<times> trace" where
  "execute_query b query_code tr =
     (try_except (bnd (db b (length tr) query_code) (\<lambda>result_df. Inr (Some result_df))) (\<lambda>e. None),
      tr @ [query_code])"

section \<open>Fallback Resolver\<close>

subsection \<open>The canned queries and the help messages\<close>

text \<open>Baseline, line 281\<close>

definition base_top_run_scorers_query :: string where
  \<open>base_top_run_scorers_query =
   concat
     [''SELECT "batter", SUM("runs_batter") as total_runs FROM ipl_balls WHERE "batter" != '' @ [CHR 0x27, CHR 0x27] @ '' GROUP BY "batter" ORDER BY total_runs DESC LIMIT 10'']\<close>

text \<open>Baseline, line 286\<close>

definition base_top_wicket_takers_query :: string where
  \<open>base_top_wicket_takers_query =
   concat
     [''SELECT "bowler", COUNT('' @ ''*'' @ '') as wickets FROM ipl_balls WHERE "isWicket" = TRUE AND "bowler" != '' @ [CHR 0x27, CHR 0x27] @ '' GROUP BY "bowler" ORDER BY wickets DESC LIMIT 10'']\<close>

text \<open>Baseline, lines 291 to 300\<close>

definition base_death_vs_pace_query :: string where
  \<open>base_death_vs_pace_query =
   concat
     [NL,
      ''                SELECT "batter", SUM("runs_batter") as runs '' @ NL,
      ''                FROM ipl_balls '' @ NL,
      ''                WHERE "over" >= 16 AND ("bowling_style" LIKE '%rm%' OR "bowling_style" LIKE '%rfm%' OR "bowling_style" LIKE '%lfm%')'' @ NL,
      ''                AND "batter" != '' @ [CHR 0x27, CHR 0x27] @ NL,
      ''                GROUP BY "batter" '' @ NL,
      ''                HAVING SUM("runs_batter") > 50'' @ NL,
      ''                ORDER BY runs DESC '' @ NL,
      ''                LIMIT 10'' @ NL,
      ''                '']\<close>

text \<open>Baseline, lines 305 to 316\<close>

definition base_death_strike_rate_query :: string where
  \<open>base_death_strike_rate_query =
   concat
     [NL,
      ''                SELECT "batter", '' @ NL,
      ''                       SUM("runs_batter") as death_runs,'' @ NL,
      ''                       COUNT('' @ ''*'' @ '') as death_balls,'' @ NL,
      ''                       ROUND((SUM("runs_batter")::numeric / NULLIF(COUNT('' @ ''*'' @ ''), 0)) * 100, 2) as death_sr'' @ NL,
      ''                FROM ipl_balls '' @ NL,
      ''                WHERE "over" >= 16 AND "batter" != '' @ [CHR 0x27, CHR 0x27] @ NL,
      ''                GROUP BY "batter"'' @ NL,
      ''                HAVING COUNT('' @ ''*'' @ '') >= 30'' @ NL,
      ''                ORDER BY death_sr DESC '' @ NL,
      ''                LIMIT 10'' @ NL,
      ''                '']\<close>

text \<open>Baseline, lines 321 to 328\<close>

definition base_help_msg :: string where
  \<open>base_help_msg =
   concat
     [''I couldn't understand your question. Please try asking about:'' @ NL,
      NL,
      [CHR 0xE2, CHR 0x80, CHR 0xA2] @ '' Top run scorers or wicket takers'' @ NL,
      [CHR 0xE2, CHR 0x80, CHR 0xA2] @ '' Performance in death overs, powerplay, or middle overs'' @ NL,
      [CHR 0xE2, CHR 0x80, CHR 0xA2] @ '' Strike rates or averages'' @ NL,
      [CHR 0xE2, CHR 0x80, CHR 0xA2] @ '' Specific seasons (2008-2024)'' @ NL,
      [CHR 0xE2, CHR 0x80, CHR 0xA2] @ '' Performance vs pace or spin bowling'' @ NL,
      [CHR 0xE2, CHR 0x80, CHR 0xA2] @ '' Team-specific statistics'' @ NL,
      NL,
      ''Example: 'Who are the top 10 run scorers in IPL history?'' @ [CHR 0x27]]\<close>

text \<open>Enhanced, lines 328 to 343\<close>

definition enh_top_run_scorers_query :: string where
  \<open>enh_top_run_scorers_query =
   concat
     [NL,
      ''                SELECT '' @ NL,
      ''                    "batter",'' @ NL,
      ''                    COUNT('' @ ''*'' @ '') as balls_faced,'' @ NL,
      ''                    SUM("runs_batter") as total_runs,'' @ NL,
      ''                    SUM("isFour"::int) as fours,'' @ NL,
      ''                    SUM("isSix"::int) as sixes,'' @ NL,
      ''                    ROUND((SUM("runs_batter")::numeric / NULLIF(COUNT('' @ ''*'' @ ''), 0)) * 100, 2) as strike_rate,'' @ NL,
      ''                    COUNT(CASE WHEN "isWicket" = TRUE THEN 1 END) as times_out,'' @ NL,
      ''                    ROUND(SUM("runs_batter")::numeric / NULLIF(COUNT(CASE WHEN "isWicket" = TRUE THEN 1 END), 0), 2) as batting_average'' @ NL,
      ''                FROM ipl_balls '' @ NL,
      ''                WHERE "batter" != '' @ [CHR 0x27, CHR 0x27] @ '' AND "batter" IS NOT NULL'' @ NL,
      ''                GROUP BY "batter"'' @ NL,
      ''                HAVING SUM("runs_batter") > 500'' @ NL,
      ''                ORDER BY total_runs DESC LIMIT 12'' @ NL,
      ''                '']\<close>

text \<open>Enhanced, lines 349 to 362\<close>

definition enh_top_wicket_takers_query :: string where
  \<open>enh_top_wicket_takers_query =
   concat
     [NL,
      ''                SELECT '' @ NL,
      ''                    "bowler",'' @ NL,
      ''                    COUNT(CASE WHEN "isWicket" = TRUE THEN 1 END) as wickets,'' @ NL,
      ''                    COUNT('' @ ''*'' @ '') as balls_bowled,'' @ NL,
      ''                    SUM("runs_total") as runs_conceded,'' @ NL,
      ''                    ROUND(SUM("runs_total")::numeric / NULLIF(COUNT(CASE WHEN "isWicket" = TRUE THEN 1 END), 0), 2) as bowling_avg,'' @ NL,
      ''                    ROUND((SUM("runs_total")::numeric / NULLIF(COUNT('' @ ''*'' @ ''), 0)) * 6, 2) as economy_rate'' @ NL,
      ''                FROM ipl_balls '' @ NL,
      ''                WHERE "bowler" != '' @ [CHR 0x27, CHR 0x27] @ '' AND "bowler" IS NOT NULL'' @ NL,
      ''                GROUP BY "bowler"'' @ NL,
      ''                HAVING COUNT(CASE WHEN "isWicket" = TRUE THEN 1 END) >= 15'' @ NL,
      ''                ORDER BY wickets DESC LIMIT 12'' @ NL,
      ''                '']\<close>

text \<open>Enhanced, lines 368 to 384\<close>

definition enh_death_vs_pace_query :: string where
  \<open>enh_death_vs_pace_query =
   concat
     [NL,
      ''                SELECT '' @ NL,
      ''                    "batter",'' @ NL,
      ''                    COUNT('' @ ''*'' @ '') as death_balls_vs_pace,'' @ NL,
      ''                    SUM("runs_batter") as death_runs,'' @ NL,
      ''                    ROUND((SUM("runs_batter")::numeric / NULLIF(COUNT('' @ ''*'' @ ''), 0)) * 100, 2) as death_sr_vs_pace,'' @ NL,
      ''                    SUM("isFour"::int) + SUM("isSix"::int) as boundaries,'' @ NL,
      ''                    SUM("isFour"::int) as fours,'' @ NL,
      ''                    SUM("isSix"::int) as sixes'' @ NL,
      ''                FROM ipl_balls '' @ NL,
      ''                WHERE "over" >= 16 '' @ NL,
      ''                    AND ("bowling_style" LIKE '%rm%' OR "bowling_style" LIKE '%rf%' OR "bowling_style" IN ('rm','rfm','rmf','lf','lfm','lmf'))'' @ NL,
      ''                    AND "batter" != '' @ [CHR 0x27, CHR 0x27] @ '' AND "batter" IS NOT NULL'' @ NL,
      ''                GROUP BY "batter"'' @ NL,
      ''                HAVING COUNT('' @ ''*'' @ '') >= 25'' @ NL,
      ''                ORDER BY death_runs DESC LIMIT 12'' @ NL,
      ''                '']\<close>

text \<open>Enhanced, lines 390 to 402\<close>

definition enh_death_strike_rate_query :: string where
  \<open>enh_death_strike_rate_query =
   concat
     [NL,
      ''                SELECT '' @ NL,
      ''                    "batter",'' @ NL,
      ''                    COUNT('' @ ''*'' @ '') as death_balls,'' @ NL,
      ''                    SUM("runs_batter") as death_runs,'' @ NL,
      ''                    ROUND((SUM("runs_batter")::numeric / NULLIF(COUNT('' @ ''*'' @ ''), 0)) * 100, 2) as death_sr,'' @ NL,
      ''                    SUM("isFour"::int) + SUM("isSix"::int) as boundaries'' @ NL,
      ''                FROM ipl_balls '' @ NL,
      ''                WHERE "over" >= 16 AND "batter" != '' @ [CHR 0x27, CHR 0x27] @ '' AND "batter" IS NOT NULL'' @ NL,
      ''                GROUP BY "batter"'' @ NL,
      ''                HAVING COUNT('' @ ''*'' @ '') >= 30 AND SUM("runs_batter") > 100'' @ NL,
      ''                ORDER BY death_sr DESC LIMIT 12'' @ NL,
      ''                '']\<close>

text \<open>Enhanced, lines 415 to 430: the text before \<^verbatim>\<open>{year}\<close> ...\<close>

definition enh_year_query_head :: string where
  \<open>enh_year_query_head =
   concat
     [NL,
      ''                    SELECT '' @ NL,
      ''                        "batter",'' @ NL,
      ''                        SUM("runs_batter") as total_runs,'' @ NL,
      ''                        COUNT('' @ ''*'' @ '') as balls_faced,'' @ NL,
      ''                        ROUND((SUM("runs_batter")::numeric / NULLIF(COUNT('' @ ''*'' @ ''), 0)) * 100, 2) as strike_rate,'' @ NL,
      ''                        SUM("isFour"::int) as fours,'' @ NL,
      ''                        SUM("isSix"::int) as sixes,'' @ NL,
      ''                        COUNT(CASE WHEN "isWicket" = TRUE THEN 1 END) as times_out,'' @ NL,
      ''                        ROUND(SUM("runs_batter")::numeric / NULLIF(COUNT(CASE WHEN "isWicket" = TRUE THEN 1 END), 0), 2) as batting_average'' @ NL,
      ''                    FROM ipl_balls '' @ NL,
      ''                    WHERE "year" = '']\<close>

text \<open>... and the text after it\<close>

definition enh_year_query_tail :: string where
  \<open>enh_year_query_tail =
   concat
     ['' AND "batter" != '' @ [CHR 0x27, CHR 0x27] @ '' AND "batter" IS NOT NULL'' @ NL,
      ''                    GROUP BY "batter"'' @ NL,
      ''                    HAVING SUM("runs_batter") > 200'' @ NL,
      ''                    ORDER BY total_runs DESC LIMIT 12'' @ NL,
      ''                    '']\<close>

text \<open>Enhanced, \<^verbatim>\<open>_get_helpful_suggestions\<close>\<close>

definition get_helpful_suggestions :: string where
  \<open>get_helpful_suggestions =
   concat
     [''I can help you with detailed IPL cricket analytics! Try asking about:'' @ NL,
      NL,
      [CHR 0xF0, CHR 0x9F, CHR 0x8F, CHR 0x8F] @ '' **Batting Analysis:**'' @ NL,
      [CHR 0xE2, CHR 0x80, CHR 0xA2] @ '' "Top run scorers in IPL history" (with strike rate, average, boundaries)'' @ NL,
      [CHR 0xE2, CHR 0x80, CHR 0xA2] @ '' "Best batters in death overs vs pace bowling"'' @ NL,
      [CHR 0xE2, CHR 0x80, CHR 0xA2] @ '' "Highest strike rates in powerplay"'' @ NL,
      [CHR 0xE2, CHR 0x80, CHR 0xA2] @ '' "Best batting averages in IPL 2024"'' @ NL,
      NL,
      [CHR 0xF0, CHR 0x9F, CHR 0x8E, CHR 0xAF] @ '' **Bowling Analysis:**  '' @ NL,
      [CHR 0xE2, CHR 0x80, CHR 0xA2] @ '' "Top wicket takers in IPL" (with economy, average, strike rate)'' @ NL,
      [CHR 0xE2, CHR 0x80, CHR 0xA2] @ '' "Best bowling figures in death overs"'' @ NL,
      [CHR 0xE2, CHR 0x80, CHR 0xA2] @ '' "Most economical bowlers in powerplay"'' @ NL,
      NL,
      [CHR 0xF0, CHR 0x9F, CHR 0x93, CHR 0x8A] @ '' **Advanced Queries:**'' @ NL,
      [CHR 0xE2, CHR 0x80, CHR 0xA2] @ '' "Strike rate analysis in death overs"'' @ NL,
      [CHR 0xE2, CHR 0x80, CHR 0xA2] @ '' "Left-handed batsmen vs spin bowling"'' @ NL,
      [CHR 0xE2, CHR 0x80, CHR 0xA2] @ '' "Team performance in specific seasons"'' @ NL,
      NL,
      ''**Example:** Try "Best batters vs pace bowling in death overs" for comprehensive statistics!'']\<close>


text \<open>The f-string of lines 415 to 430.\<close>

definition enh_year_query :: "int \<Rightarrow> string" where
  "enh_year_query year = enh_year_query_head @ str_int year @ enh_year_query_tail"

subsection \<open>Baseline variant: \<^verbatim>\<open>_try_fallback_queries\<close>\<close>

text \<open>The conditions of the \<^verbatim>\<open>if\<close>/\<^verbatim>\<open>elif\<close> chain, in the order of the source.\<close>

definition is_top_batting_base :: "string \<Rightarrow> bool" where
  "is_top_batting_base ql =
     (any_in [''top'', ''best'', ''highest''] ql \<and> any_in [''run'', ''scorer''] ql)"

definition is_top_bowling :: "string \<Rightarrow> bool" where
  "is_top_bowling ql = (any_in [''wicket'', ''bowler''] ql \<and> py_in ''top'' ql)"

definition is_death_pace_base :: "string \<Rightarrow> bool" where
  "is_death_pace_base ql = (py_in ''death over'' ql \<and> py_in ''pace'' ql)"

definition is_death_sr_base :: "string \<Rightarrow> bool" where
  "is_death_sr_base ql = (py_in ''death over'' ql \<and> py_in ''strike rate'' ql)"

text \<open>\<^verbatim>\<open>result = self._execute_query(query); return self._format_result(result, question)\<close>\<close>

definition run_query_base :: "chatbot \<Rightarrow> string \<Rightarrow> string \<Rightarrow> trace \<Rightarrow> (error + string option) \<times> trace" where
  "run_query_base b query question tr =
     (case execute_query b query tr of
        (result, tr') \<Rightarrow> (Inr (Some (format_result_base b result question)), tr'))"

text \<open>
  The value of a function is \<open>Some s\<close> for \<^verbatim>\<open>return s\<close> with a string \<open>s\<close>, and \<open>None\<close>
  when the function returns Python's \<^verbatim>\<open>None\<close>.
\<close>

definition try_fallback_queries :: "chatbot \<Rightarrow> string \<Rightarrow> trace \<Rightarrow> string option \<times> trace" where
  "try_fallback_queries b question tr =
     (let question_lower = py_lower question in
      case (if is_top_batting_base question_lower
              then run_query_base b base_top_run_scorers_query question tr
            else if is_top_bowling question_lower
              then run_query_base b base_top_wicket_takers_query question tr
            else if is_death_pace_base question_lower
              then run_query_base b base_death_vs_pace_query question tr
            else if is_death_sr_base question_lower
              then run_query_base b base_death_strike_rate_query question tr
            else (Inr (Some base_help_msg), tr))
      of (body, tr') \<Rightarrow>
        (try_except body
           (\<lambda>e. Some (''Sorry, I encountered an error while processing your question: '' @ str_exc e)),
         tr'))"

subsection \<open>Enhanced variant: \<^verbatim>\<open>_try_enhanced_fallback_queries\<close>\<close>

definition is_top_batting_enh :: "string \<Rightarrow> bool" where
  "is_top_batting_enh ql =
     ((any_in [''top'', ''best'', ''highest''] ql
         \<and> any_in [''run'', ''scorer'', ''batsman'', ''batter''] ql)
      \<and> \<not> any_in [''death'', ''2024'', ''2023'', ''2022'', ''pace'', ''bowling''] ql)"

definition is_death_pace_enh :: "string \<Rightarrow> bool" where
  "is_death_pace_enh ql =
     ((py_in ''death'' ql \<and> py_in ''pace'' ql)
      \<or> (py_in ''death over'' ql \<and> (py_in ''pace'' ql \<or> py_in ''vs pace'' ql)))"

definition is_death_sr_enh :: "string \<Rightarrow> bool" where
  "is_death_sr_enh ql = ((py_in ''strike rate'' ql \<or> py_in ''sr'' ql) \<and> py_in ''death'' ql)"

definition known_years :: "string list" where
  "known_years = [''2024'', ''2023'', ''2022'', ''2021'']"

definition has_known_year :: "string \<Rightarrow> bool" where
  "has_known_year ql = any_in known_years ql"

text \<open>
  \<^verbatim>\<open>year = None; for y in [...]: if y in question_lower: year = int(y); break\<close>
\<close>

fun find_year :: "string list \<Rightarrow> string \<Rightarrow> error + int option" where
  "find_year [] ql = Inr None"
| "find_year (y # ys) ql =
     (if py_in y ql then bnd (py_int y) (\<lambda>n. Inr (Some n)) else find_year ys ql)"

text \<open>\<^verbatim>\<open>if year:\<close>\<close>

fun truthy_year :: "int option \<Rightarrow> bool" where
  "truthy_year None = False"
| "truthy_year (Some n) = (n \<noteq> 0)"

definition run_query_enh :: "chatbot \<Rightarrow> string \<Rightarrow> string \<Rightarrow> trace \<Rightarrow> (error + string option) \<times> trace" where
  "run_query_enh b query question tr =
     (case execute_query b query tr of
        (result, tr') \<Rightarrow> (Inr (Some (format_result_enh b result question)), tr'))"

text \<open>
  The branch of the known years: when \<^verbatim>\<open>if year:\<close> fails, control leaves the chain
  and the function ends without a \<^verbatim>\<open>return\<close>.
\<close>

definition year_branch :: "chatbot \<Rightarrow> string \<Rightarrow> string \<Rightarrow> trace \<Rightarrow> (error + string option) \<times> trace" where
  "year_branch b question_lower question tr =
     (case find_year known_years question_lower of
        Inl e \<Rightarrow> (Inl e, tr)
      | Inr year \<Rightarrow>
          (case year of
             None \<Rightarrow> (Inr None, tr)
           | Some n \<Rightarrow>
               if truthy_year year then run_query_enh b (enh_year_query n) question tr
               else (Inr None, tr)))"

definition try_enhanced_fallback_queries :: "chatbot \<Rightarrow> string \<Rightarrow> trace \<Rightarrow> string option \<times> trace" where
  "try_enhanced_fallback_queries b question tr =
     (let question_lower = py_lower question in
      case (if is_top_batting_enh question_lower
              then run_query_enh b enh_top_run_scorers_query question tr
            else if is_top_bowling question_lower
              then run_query_enh b enh_top_wicket_takers_query question tr
            else if is_death_pace_enh question_lower
              then run_query_enh b enh_death_vs_pace_query question tr
            else if is_death_sr_enh question_lower
              then run_query_enh b enh_death_strike_rate_query question tr
            else if has_known_year question_lower
              then year_branch b question_lower question tr
            else (Inr (Some get_helpful_suggestions), tr))
      of (body, tr') \<Rightarrow>
        (try_except body
           (\<lambda>e. Some ''Sorry, I encountered an error while processing your question. Please try a different query.''),
         tr'))"

section \<open>The operation \<^verbatim>\<open>ask\<close>\<close>

text \<open>
  Each function gives the value returned and the queries that reached the executor
  during the call. \<^verbatim>\<open>not query_code\<close> holds for \<^verbatim>\<open>None\<close> and for the empty string.
\<close>

definition ask_base :: "chatbot \<Rightarrow> string \<Rightarrow> string option \<times> trace" where
  "ask_base b question =
     (case get_query_from_llm b question of
        None \<Rightarrow> try_fallback_queries b question []
      | Some query_code \<Rightarrow>
          if query_code = [] then try_fallback_queries b question []
          else (case execute_query b query_code [] of
                  (None, tr) \<Rightarrow> try_fallback_queries b question tr
                | (Some df, tr) \<Rightarrow> (Some (format_result_base b (Some df) question), tr)))"

definition ask_enh :: "chatbot \<Rightarrow> string \<Rightarrow> string option \<times> trace" where
  "ask_enh b question =
     (case get_query_from_llm b question of
        None \<Rightarrow> try_enhanced_fallback_queries b question []
      | Some query_code \<Rightarrow>
          if query_code = [] then try_enhanced_fallback_queries b question []
          else (case execute_query b query_code [] of
                  (None, tr) \<Rightarrow> try_enhanced_fallback_queries b question tr
                | (Some df, tr) \<Rightarrow>
                    if length (rows df) = 0 then try_enhanced_fallback_queries b question tr
                    else (Some (format_result_enh b (Some df) question), tr)))"

section \<open>Bowling styles\<close>

text \<open>\<^verbatim>\<open>_initialize_bowling_classifications\<close> of the enhanced variant\<close>

definition pace_styles :: "string list" where
  "pace_styles = [''rm'', ''rfm'', ''rmf'', ''lf'', ''lfm'', ''lmf'']"

definition spin_styles :: "string list" where
  "spin_styles = [''ob'', ''lb'', ''sla'', ''lbg'', ''lws'']"

text \<open>The SQL condition \<^verbatim>\<open>"bowling_style" LIKE '%pat%'\<close> on a style code that is not null.\<close>

definition sql_like :: "string \<Rightarrow> string \<Rightarrow> bool" where
  "sql_like pat style = sublist pat style"

text \<open>
  Baseline prompt, rule 5 (line 119) and the worked example (line 130):
  \<^verbatim>\<open>"bowling_style" LIKE '%rm%' OR "bowling_style" LIKE '%rfm%' OR "bowling_style" LIKE '%lfm%'\<close>;
  rule 6 (line 120) for spin negates the three patterns.
\<close>

definition pace_prompt_base :: "string \<Rightarrow> bool" where
  "pace_prompt_base style = (sql_like ''rm'' style \<or> sql_like ''rfm'' style \<or> sql_like ''lfm'' style)"

definition spin_prompt_base :: "string \<Rightarrow> bool" where
  "spin_prompt_base style =
     (\<not> sql_like ''rm'' style \<and> \<not> sql_like ''rfm'' style \<and> \<not> sql_like ''lfm'' style)"

text \<open>Baseline fallback, the filter of \<open>base_death_vs_pace_query\<close> (line 294).\<close>

definition pace_fallback_base :: "string \<Rightarrow> bool" where
  "pace_fallback_base style = (sql_like ''rm'' style \<or> sql_like ''rfm'' style \<or> sql_like ''lfm'' style)"

text \<open>
  Enhanced prompt, the schema summary (lines 89 and 90):
  \<^verbatim>\<open>bowling_style IN ('rm','rfm','rmf','lf','lfm','lmf') OR bowling_style LIKE '%rm%' OR bowling_style LIKE '%rf%'\<close>
  for pace, and
  \<^verbatim>\<open>bowling_style IN ('ob','lb','sla','lbg','lws') OR bowling_style NOT LIKE ANY pace patterns\<close>
  for spin.
\<close>

definition pace_prompt_enh :: "string \<Rightarrow> bool" where
  "pace_prompt_enh style = (style \<in> set pace_styles \<or> sql_like ''rm'' style \<or> sql_like ''rf'' style)"

definition spin_prompt_enh :: "string \<Rightarrow> bool" where
  "spin_prompt_enh style =
     (style \<in> set spin_styles \<or> \<not> (sql_like ''rm'' style \<or> sql_like ''rf'' style))"

text \<open>
  Enhanced fallback, the filter of \<open>enh_death_vs_pace_query\<close> (line 379), which is also
  the filter of the worked example of the prompt (line 171).
\<close>

definition pace_fallback_enh :: "string \<Rightarrow> bool" where
  "pace_fallback_enh style = (sql_like ''rm'' style \<or> sql_like ''rf'' style \<or> style \<in> set pace_styles)"

section \<open>Example inputs\<close>

text \<open>The \<^verbatim>\<open>repr\<close> of the floats of the examples, which have one decimal digit.\<close>

definition repr_1dp :: "rat \<Rightarrow> string" where
  "repr_1dp x = fmt_fixed False 1 x"

definition kohli_table :: table where
  "kohli_table =
     \<lparr>columns = [''batter'', ''total_runs'', ''strike_rate''],
      rows = [[StrV ''V Kohli'', IntV 1250, FloatV (271 / 2)]]\<rparr>"

definition empty_table :: table where
  "empty_table = \<lparr>columns = [''batter'', ''total_runs''], rows = []\<rparr>"

definition reply_2031 :: string where
  \<open>reply_2031 = ''SELECT "batter" FROM ipl_balls WHERE "year" = 2031''\<close>

text \<open>The threshold of the enhanced batting leaderboard (line 341).\<close>

definition min_500_runs :: string where
  \<open>min_500_runs = ''HAVING SUM("runs_batter") > 500''\<close>

text \<open>A database that answers every query with an empty table.\<close>

definition bot_empty :: chatbot where
  \<open>bot_empty =
     \<lparr>llm = (\<lambda>q. Inr reply_2031),
      db = (\<lambda>n q. Inr empty_table),
      float_repr = repr_1dp\<rparr>\<close>

text \<open>A database that is unreachable: every execution raises.\<close>

definition bot_down :: chatbot where
  \<open>bot_down =
     \<lparr>llm = (\<lambda>q. Inr ''SELECT "batter" FROM ipl_balls LIMIT 10;''),
      db = (\<lambda>n q. Inl (OtherError ''connection refused'')),
      float_repr = repr_1dp\<rparr>\<close>

text \<open>A reply whose last two semicolons are separated by a blank.\<close>

definition bot_semicolons :: chatbot where
  \<open>bot_semicolons =
     \<lparr>llm = (\<lambda>q. Inr ''SELECT 1; ;''),
      db = (\<lambda>n q. Inr kohli_table),
      float_repr = repr_1dp\<rparr>\<close>


section \<open>Properties\<close>

subsection \<open>The executor and the year branch\<close>

lemma execute_query_trace: "snd (execute_query b query tr) = tr @ [query]"
  by (simp add: execute_query_def)

lemma run_query_base_eq:
  "run_query_base b query question tr =
     (Inr (Some (format_result_base b (fst (execute_query b query tr)) question)), tr @ [query])"
  by (simp add: run_query_base_def execute_query_def)

lemma run_query_enh_eq:
  "run_query_enh b query question tr =
     (Inr (Some (format_result_enh b (fst (execute_query b query tr)) question)), tr @ [query])"
  by (simp add: run_query_enh_def execute_query_def)

lemma py_int_known_years:
  "py_int ''2024'' = Inr 2024" "py_int ''2023'' = Inr 2023"
  "py_int ''2022'' = Inr 2022" "py_int ''2021'' = Inr 2021"
  by code_simp+

lemma find_year_known_years:
  "find_year known_years ql =
     Inr (if py_in ''2024'' ql then Some 2024 else if py_in ''2023'' ql then Some 2023
          else if py_in ''2022'' ql then Some 2022 else if py_in ''2021'' ql then Some 2021
          else None)"
  by (simp add: known_years_def py_int_known_years bnd_def)






subsection \<open>Empty tables\<close>


lemma execute_query_failed:
  "isl (db b (length tr) query) \<Longrightarrow> execute_query b query tr = (None, tr @ [query])"
  by (cases "db b (length tr) query") (simp_all add: execute_query_def bnd_def try_except_def)





subsection \<open>The batting leaderboard of the resolver\<close>

lemma top_run_scorers_lower:
  "py_lower ''top run scorers'' = ''top run scorers''"
  by code_simp

lemma top_run_scorers_is_top_batting:
  "is_top_batting_enh ''top run scorers''" "is_top_batting_base ''top run scorers''"
  by code_simp+

lemma min_500_runs_in_query: "py_in min_500_runs enh_top_run_scorers_query"
  by code_simp

lemma fallback_enh_top_batting:
  assumes "is_top_batting_enh (py_lower question)"
  shows "try_enhanced_fallback_queries b question tr =
           (Some (format_result_enh b (fst (execute_query b enh_top_run_scorers_query tr)) question),
            tr @ [enh_top_run_scorers_query])"
  using assms
  by (simp add: try_enhanced_fallback_queries_def run_query_enh_eq try_except_def Let_def)

lemma fallback_base_top_batting:
  assumes "is_top_batting_base (py_lower question)"
  shows "try_fallback_queries b question tr =
           (Some (format_result_base b (fst (execute_query b base_top_run_scorers_query tr)) question),
            tr @ [base_top_run_scorers_query])"
  using assms
  by (simp add: try_fallback_queries_def run_query_base_eq try_except_def Let_def)

lemma fallback_enh_db_down:
  assumes "\<And>n query. isl (db b n query)"
  shows "try_enhanced_fallback_queries b ''top run scorers'' tr =
           (Some sorry_msg, tr @ [enh_top_run_scorers_query])"
  by (simp add: fallback_enh_top_batting top_run_scorers_lower top_run_scorers_is_top_batting
      execute_query_failed assms format_result_enh_def)

lemma fallback_base_db_down:
  assumes "\<And>n query. isl (db b n query)"
  shows "try_fallback_queries b ''top run scorers'' tr =
           (Some sorry_msg, tr @ [base_top_run_scorers_query])"
  by (simp add: fallback_base_top_batting top_run_scorers_lower top_run_scorers_is_top_batting
      execute_query_failed assms format_result_base_def)

text \<open>
  Claim C3, as amended. When every execution fails, \<^verbatim>\<open>ask("top run scorers")\<close> reaches
  the fallback resolver, which selects the batting leaderboard of category 1 (with the
  threshold of more than 500 runs in the enhanced variant) and hands it to the executor
  last; that execution fails as well, and the answer is the fixed apology of the
  formatter, a string and not a raised fault.
\<close>

theorem db_down_top_run_scorers:
  assumes "\<And>n query. isl (db b n query)"
  shows "fst (ask_enh b ''top run scorers'') = Some sorry_msg \<and>
         last (snd (ask_enh b ''top run scorers'')) = enh_top_run_scorers_query \<and>
         py_in min_500_runs enh_top_run_scorers_query \<and>
         fst (ask_base b ''top run scorers'') = Some sorry_msg \<and>
         last (snd (ask_base b ''top run scorers'')) = base_top_run_scorers_query"
proof -
  have enh: "ask_enh b ''top run scorers'' =
               (Some sorry_msg, snd (ask_enh b ''top run scorers'')) \<and>
             last (snd (ask_enh b ''top run scorers'')) = enh_top_run_scorers_query"
    by (simp add: ask_enh_def fallback_enh_db_down [OF assms] execute_query_failed assms
        split: option.splits)
  have base: "ask_base b ''top run scorers'' =
               (Some sorry_msg, snd (ask_base b ''top run scorers'')) \<and>
             last (snd (ask_base b ''top run scorers'')) = base_top_run_scorers_query"
    by (simp add: ask_base_def fallback_base_db_down [OF assms] execute_query_failed assms
        split: option.splits)
  from enh have e1: "fst (ask_enh b ''top run scorers'') = Some sorry_msg"
    by (metis fst_conv)
  from base have b1: "fst (ask_base b ''top run scorers'') = Some sorry_msg"
    by (metis fst_conv)
  from e1 b1 enh base min_500_runs_in_query show ?thesis by blast
qed

theorem db_down_top_run_scorers_witness:
  "fst (ask_enh bot_down ''top run scorers'') = Some sorry_msg \<and>
   last (snd (ask_enh bot_down ''top run scorers'')) = enh_top_run_scorers_query \<and>
   py_in min_500_runs enh_top_run_scorers_query \<and>
   fst (ask_base bot_down ''top run scorers'') = Some sorry_msg \<and>
   last (snd (ask_base bot_down ''top run scorers'')) = base_top_run_scorers_query"
proof (rule db_down_top_run_scorers)
  fix n query
  show "isl (db bot_down n query)"
    by (simp add: bot_down_def)
qed

text \<open>
  Claim C3 as stated fails: with an unreachable database the answer is the apology, which
  does not begin with the glyph that opens every leaderboard.
\<close>

theorem db_down_no_leaderboard_counterexample:
  "db bot_down 0 enh_top_run_scorers_query = Inl (OtherError ''connection refused'') \<and>
   db bot_down 1 enh_top_run_scorers_query = Inl (OtherError ''connection refused'') \<and>
   fst (ask_enh bot_down ''top run scorers'') = Some sorry_msg \<and>
   fst (ask_base bot_down ''top run scorers'') = Some sorry_msg \<and>
   \<not> prefix cricket sorry_msg"
  by code_simp

text \<open>
  Claim C4, as amended. In the enhanced resolver a question whose lower-cased text has
  one of top, best, highest, one of run, scorer, batsman, batter and none of death, 2024,
  2023, 2022, pace, bowling selects the batting leaderboard and no other canned query,
  and that query keeps the batters with more than 500 runs. In the baseline resolver the
  first test asks for one of top, best, highest and one of run, scorer only, and its
  query has no threshold.
\<close>

theorem top_batting_template:
  "(any_in [''top'', ''best'', ''highest''] (py_lower question) \<and>
    any_in [''run'', ''scorer'', ''batsman'', ''batter''] (py_lower question) \<and>
    \<not> any_in [''death'', ''2024'', ''2023'', ''2022'', ''pace'', ''bowling''] (py_lower question) \<longrightarrow>
      try_enhanced_fallback_queries b question tr =
        (Some (format_result_enh b (fst (execute_query b enh_top_run_scorers_query tr)) question),
         tr @ [enh_top_run_scorers_query])) \<and>
   py_in min_500_runs enh_top_run_scorers_query \<and>
   (any_in [''top'', ''best'', ''highest''] (py_lower question) \<and>
    any_in [''run'', ''scorer''] (py_lower question) \<longrightarrow>
      try_fallback_queries b question tr =
        (Some (format_result_base b (fst (execute_query b base_top_run_scorers_query tr)) question),
         tr @ [base_top_run_scorers_query])) \<and>
   \<not> py_in ''HAVING'' base_top_run_scorers_query"
proof (intro conjI impI)
  assume "any_in [''top'', ''best'', ''highest''] (py_lower question) \<and>
    any_in [''run'', ''scorer'', ''batsman'', ''batter''] (py_lower question) \<and>
    \<not> any_in [''death'', ''2024'', ''2023'', ''2022'', ''pace'', ''bowling''] (py_lower question)"
  then have "is_top_batting_enh (py_lower question)"
    by (simp add: is_top_batting_enh_def)
  then show "try_enhanced_fallback_queries b question tr =
        (Some (format_result_enh b (fst (execute_query b enh_top_run_scorers_query tr)) question),
         tr @ [enh_top_run_scorers_query])"
    by (rule fallback_enh_top_batting)
next
  show "py_in min_500_runs enh_top_run_scorers_query"
    by (rule min_500_runs_in_query)
next
  assume "any_in [''top'', ''best'', ''highest''] (py_lower question) \<and>
    any_in [''run'', ''scorer''] (py_lower question)"
  then have "is_top_batting_base (py_lower question)"
    by (simp add: is_top_batting_base_def)
  then show "try_fallback_queries b question tr =
        (Some (format_result_base b (fst (execute_query b base_top_run_scorers_query tr)) question),
         tr @ [base_top_run_scorers_query])"
    by (rule fallback_base_top_batting)
next
  show "\<not> py_in ''HAVING'' base_top_run_scorers_query"
    by code_simp
qed

theorem top_batting_template_witness:
  "try_enhanced_fallback_queries bot_empty ''Best batsman ever'' [] =
     (Some (format_result_enh bot_empty
              (fst (execute_query bot_empty enh_top_run_scorers_query [])) ''Best batsman ever''),
      [] @ [enh_top_run_scorers_query]) \<and>
   py_in min_500_runs enh_top_run_scorers_query \<and>
   try_fallback_queries bot_empty ''Top run scorers'' [] =
     (Some (format_result_base bot_empty
              (fst (execute_query bot_empty base_top_run_scorers_query [])) ''Top run scorers''),
      [] @ [base_top_run_scorers_query]) \<and>
   \<not> py_in ''HAVING'' base_top_run_scorers_query"
proof -
  have h1: "any_in [''top'', ''best'', ''highest''] (py_lower ''Best batsman ever'') \<and>
    any_in [''run'', ''scorer'', ''batsman'', ''batter''] (py_lower ''Best batsman ever'') \<and>
    \<not> any_in [''death'', ''2024'', ''2023'', ''2022'', ''pace'', ''bowling'']
        (py_lower ''Best batsman ever'')"
    by code_simp
  have h2: "any_in [''top'', ''best'', ''highest''] (py_lower ''Top run scorers'') \<and>
    any_in [''run'', ''scorer''] (py_lower ''Top run scorers'')"
    by code_simp
  from top_batting_template [of "''Best batsman ever''" bot_empty "[]"] h1
    top_batting_template [of "''Top run scorers''" bot_empty "[]"] h2
  show ?thesis by blast
qed

text \<open>
  Claim C4 as stated fails in the baseline variant: \<open>best batsman\<close> has the keywords of
  the claim and none of the excluded ones, and the baseline resolver selects no canned
  query for it.
\<close>

theorem top_batting_baseline_counterexample:
  "any_in [''top'', ''best'', ''highest''] (py_lower ''best batsman'') \<and>
   any_in [''run'', ''scorer'', ''batsman'', ''batter''] (py_lower ''best batsman'') \<and>
   \<not> any_in [''death'', ''2024'', ''2023'', ''2022'', ''2021'', ''pace'', ''bowling'']
       (py_lower ''best batsman'') \<and>
   try_fallback_queries bot_empty ''best batsman'' [] = (Some base_help_msg, [])"
  by code_simp

subsection \<open>Bowling styles\<close>

lemma pace_styles_are_pace_enh: "style \<in> set pace_styles \<Longrightarrow> pace_fallback_enh style"
  by (simp add: pace_fallback_enh_def)

text \<open>
  Claim C5, as amended. Within each variant the prompt and the canned query that filters
  by bowling style use the same test for pace: in the enhanced variant a style in
  \<open>pace_styles\<close> or containing \<open>rm\<close> or \<open>rf\<close>, in the baseline variant a style
  containing \<open>rm\<close>, \<open>rfm\<close> or \<open>lfm\<close>. The style \<open>rfm\<close> is pace under all four tests;
  \<open>ob\<close> is pace under none of them and spin under both prompts.
\<close>

theorem pace_classification:
  "pace_prompt_enh style = pace_fallback_enh style \<and>
   pace_prompt_base style = pace_fallback_base style \<and>
   (pace_fallback_enh style =
      (style \<in> set [''rm'', ''rfm'', ''rmf'', ''lf'', ''lfm'', ''lmf''] \<or>
       py_in ''rm'' style \<or> py_in ''rf'' style)) \<and>
   (pace_fallback_base style =
      (py_in ''rm'' style \<or> py_in ''rfm'' style \<or> py_in ''lfm'' style)) \<and>
   pace_prompt_enh ''rfm'' \<and> pace_fallback_enh ''rfm'' \<and>
   pace_prompt_base ''rfm'' \<and> pace_fallback_base ''rfm'' \<and>
   \<not> pace_prompt_enh ''ob'' \<and> \<not> pace_fallback_enh ''ob'' \<and>
   \<not> pace_prompt_base ''ob'' \<and> \<not> pace_fallback_base ''ob'' \<and>
   spin_prompt_enh ''ob'' \<and> spin_prompt_base ''ob''"
proof -
  have general:
    "pace_prompt_enh style = pace_fallback_enh style"
    "pace_prompt_base style = pace_fallback_base style"
    "pace_fallback_enh style =
      (style \<in> set [''rm'', ''rfm'', ''rmf'', ''lf'', ''lfm'', ''lmf''] \<or>
       py_in ''rm'' style \<or> py_in ''rf'' style)"
    "pace_fallback_base style =
      (py_in ''rm'' style \<or> py_in ''rfm'' style \<or> py_in ''lfm'' style)"
    by (auto simp: pace_prompt_enh_def pace_fallback_enh_def pace_prompt_base_def
        pace_fallback_base_def pace_styles_def sql_like_def py_in_def)
  have rfm: "pace_prompt_enh ''rfm'' \<and> pace_fallback_enh ''rfm'' \<and>
             pace_prompt_base ''rfm'' \<and> pace_fallback_base ''rfm''"
    by code_simp
  have ob: "\<not> pace_prompt_enh ''ob'' \<and> \<not> pace_fallback_enh ''ob'' \<and>
            \<not> pace_prompt_base ''ob'' \<and> \<not> pace_fallback_base ''ob'' \<and>
            spin_prompt_enh ''ob'' \<and> spin_prompt_base ''ob''"
    by code_simp
  from general rfm ob show ?thesis by blast
qed

theorem pace_classification_witness:
  "pace_prompt_enh ''lfm'' = pace_fallback_enh ''lfm'' \<and>
   pace_prompt_base ''lfm'' = pace_fallback_base ''lfm'' \<and>
   (pace_fallback_enh ''lfm'' =
      (''lfm'' \<in> set [''rm'', ''rfm'', ''rmf'', ''lf'', ''lfm'', ''lmf''] \<or>
       py_in ''rm'' ''lfm'' \<or> py_in ''rf'' ''lfm'')) \<and>
   (pace_fallback_base ''lfm'' =
      (py_in ''rm'' ''lfm'' \<or> py_in ''rfm'' ''lfm'' \<or> py_in ''lfm'' ''lfm'')) \<and>
   pace_prompt_enh ''rfm'' \<and> pace_fallback_enh ''rfm'' \<and>
   pace_prompt_base ''rfm'' \<and> pace_fallback_base ''rfm'' \<and>
   \<not> pace_prompt_enh ''ob'' \<and> \<not> pace_fallback_enh ''ob'' \<and>
   \<not> pace_prompt_base ''ob'' \<and> \<not> pace_fallback_base ''ob'' \<and>
   spin_prompt_enh ''ob'' \<and> spin_prompt_base ''ob''"
  by (rule pace_classification)

text \<open>
  Claim C5 as stated fails: \<open>lf\<close> is one of the pace codes and the enhanced prompt treats
  it as pace, but the filter of the baseline canned query does not select it, and the
  baseline prompt calls it spin.
\<close>

theorem pace_lf_counterexample:
  "''lf'' \<in> set pace_styles \<and> pace_prompt_enh ''lf'' \<and> pace_fallback_enh ''lf'' \<and>
   \<not> pace_fallback_base ''lf'' \<and> \<not> pace_prompt_base ''lf'' \<and> spin_prompt_base ''lf''"
  by code_simp

subsection \<open>Years\<close>

lemma str_int_known_years:
  "str_int 2024 = ''2024''" "str_int 2023 = ''2023''"
  "str_int 2022 = ''2022''" "str_int 2021 = ''2021''"
  by code_simp+

lemma find_year_in_known:
  assumes "find_year known_years ql = Inr (Some y)"
  shows "y \<in> {2021, 2022, 2023, 2024} \<and> py_in (str_int y) ql"
  using assms
  by (auto simp: find_year_known_years str_int_known_years split: if_splits)

text \<open>
  Claim C6. The year found by the enhanced resolver is always one of 2021, 2022, 2023,
  2024, read from the question; a question that contains \<open>2025\<close> and matches none of the
  five tests of the resolver gets the help message, and no query reaches the executor.
\<close>

theorem year_2025_falls_through:
  "(find_year known_years (py_lower question) = Inr (Some y) \<longrightarrow>
      y \<in> {2021, 2022, 2023, 2024} \<and> py_in (str_int y) (py_lower question)) \<and>
   (py_in ''2025'' (py_lower question) \<and>
    \<not> is_top_batting_enh (py_lower question) \<and> \<not> is_top_bowling (py_lower question) \<and>
    \<not> is_death_pace_enh (py_lower question) \<and> \<not> is_death_sr_enh (py_lower question) \<and>
    \<not> has_known_year (py_lower question) \<longrightarrow>
      try_enhanced_fallback_queries b question tr = (Some get_helpful_suggestions, tr))"
proof (rule conjI)
  show "find_year known_years (py_lower question) = Inr (Some y) \<longrightarrow>
      y \<in> {2021, 2022, 2023, 2024} \<and> py_in (str_int y) (py_lower question)"
    using find_year_in_known by blast
next
  show "py_in ''2025'' (py_lower question) \<and>
    \<not> is_top_batting_enh (py_lower question) \<and> \<not> is_top_bowling (py_lower question) \<and>
    \<not> is_death_pace_enh (py_lower question) \<and> \<not> is_death_sr_enh (py_lower question) \<and>
    \<not> has_known_year (py_lower question) \<longrightarrow>
      try_enhanced_fallback_queries b question tr = (Some get_helpful_suggestions, tr)"
    by (simp add: try_enhanced_fallback_queries_def try_except_def Let_def)
qed

theorem year_2025_falls_through_witness:
  "(2024 :: int) \<in> {2021, 2022, 2023, 2024} \<and>
   py_in (str_int 2024) (py_lower ''Orange cap 2024'') \<and>
   try_enhanced_fallback_queries bot_empty ''Orange cap in IPL 2025'' [] =
     (Some get_helpful_suggestions, [])"
proof -
  have h1: "find_year known_years (py_lower ''Orange cap 2024'') = Inr (Some 2024)"
    by code_simp
  have h2: "py_in ''2025'' (py_lower ''Orange cap in IPL 2025'') \<and>
    \<not> is_top_batting_enh (py_lower ''Orange cap in IPL 2025'') \<and>
    \<not> is_top_bowling (py_lower ''Orange cap in IPL 2025'') \<and>
    \<not> is_death_pace_enh (py_lower ''Orange cap in IPL 2025'') \<and>
    \<not> is_death_sr_enh (py_lower ''Orange cap in IPL 2025'') \<and>
    \<not> has_known_year (py_lower ''Orange cap in IPL 2025'')"
    by code_simp
  from year_2025_falls_through [of "''Orange cap 2024''" 2024] h1
    year_2025_falls_through [of "''Orange cap in IPL 2025''" _ bot_empty "[]"] h2
  show ?thesis by blast
qed

subsection \<open>The formatter on one row\<close>

lemma strike_rate_1f: "fmt_fixed False (Suc 0) (271 / 2) = ''135.5''"
  by code_simp

lemma total_runs_comma: "fmt_comma_int 1250 = ''1,250''"
  by code_simp

lemma kohli_enh:
  "format_enhanced_dataframe b kohli_table ql =
     cricket @ '' **Cricket Analytics Results:**'' @ NL @ NL @
     medal1 @ '' **V Kohli** - **1,250 runs** | SR: 135.5'' @ NL"
  by (simp add: format_enhanced_dataframe_def kohli_table_def format_row_enh_def row_name_def
      row_get_def row_item_def stats_parts_def runs_part_def rate_part_def average_part_def
      boundary_part_def wickets_part_def bowling_avg_part_def economy_part_def sample_part_def
      has_notna_def has_positive_def part_comma_def part_1f_def part_str_def medal_enh_def
      more_results_def bnd_def try_except_def strike_rate_1f total_runs_comma)

lemma str_nat_1: "str_nat (Suc 0) = ''1''"
  by code_simp

lemma kohli_base:
  "format_dataframe b kohli_table ql =
     cricket @ '' **Top 1 Results:**'' @ NL @ NL @
     medal1 @ '' **V Kohli** - 1,250 runs'' @ NL"
  by (simp add: format_dataframe_def kohli_table_def format_row_base_def row_name_def
      row_get_def row_item_def main_stat_def value_str_def medal_base_def
      more_results_def bnd_def try_except_def total_runs_comma str_nat_1 Let_def)

text \<open>
  Claim C8, as amended. For the table with the one row \<open>V Kohli\<close>, 1250, 135.5 the
  enhanced formatter gives a text that holds \<open>V Kohli\<close>, \<open>1,250\<close> and \<open>135.5\<close>, with the
  row behind the marker of rank 1. The baseline formatter shows one statistic for a row:
  its text holds \<open>V Kohli\<close> and \<open>1,250\<close> behind the same marker, and not the strike
  rate.
\<close>

theorem kohli_row_formatted:
  "format_enhanced_dataframe b kohli_table ql =
     cricket @ '' **Cricket Analytics Results:**'' @ NL @ NL @
     medal1 @ '' **V Kohli** - **1,250 runs** | SR: 135.5'' @ NL \<and>
   py_in ''V Kohli'' (format_enhanced_dataframe b kohli_table ql) \<and>
   py_in ''1,250'' (format_enhanced_dataframe b kohli_table ql) \<and>
   py_in ''135.5'' (format_enhanced_dataframe b kohli_table ql) \<and>
   py_in (medal1 @ '' **V Kohli**'') (format_enhanced_dataframe b kohli_table ql) \<and>
   format_dataframe b kohli_table ql =
     cricket @ '' **Top 1 Results:**'' @ NL @ NL @
     medal1 @ '' **V Kohli** - 1,250 runs'' @ NL \<and>
   py_in ''V Kohli'' (format_dataframe b kohli_table ql) \<and>
   py_in ''1,250'' (format_dataframe b kohli_table ql) \<and>
   py_in (medal1 @ '' **V Kohli**'') (format_dataframe b kohli_table ql)"
proof -
  have enh: "py_in ''V Kohli'' (format_enhanced_dataframe b kohli_table ql) \<and>
    py_in ''1,250'' (format_enhanced_dataframe b kohli_table ql) \<and>
    py_in ''135.5'' (format_enhanced_dataframe b kohli_table ql) \<and>
    py_in (medal1 @ '' **V Kohli**'') (format_enhanced_dataframe b kohli_table ql)"
    unfolding kohli_enh by code_simp
  have base: "py_in ''V Kohli'' (format_dataframe b kohli_table ql) \<and>
    py_in ''1,250'' (format_dataframe b kohli_table ql) \<and>
    py_in (medal1 @ '' **V Kohli**'') (format_dataframe b kohli_table ql)"
    unfolding kohli_base by code_simp
  from enh base kohli_enh [of b ql] kohli_base [of b ql] show ?thesis
    by blast
qed

theorem kohli_row_formatted_witness:
  "format_enhanced_dataframe bot_empty kohli_table (py_lower ''Top run scorers'') =
     cricket @ '' **Cricket Analytics Results:**'' @ NL @ NL @
     medal1 @ '' **V Kohli** - **1,250 runs** | SR: 135.5'' @ NL \<and>
   py_in ''V Kohli'' (format_enhanced_dataframe bot_empty kohli_table (py_lower ''Top run scorers'')) \<and>
   py_in ''1,250'' (format_enhanced_dataframe bot_empty kohli_table (py_lower ''Top run scorers'')) \<and>
   py_in ''135.5'' (format_enhanced_dataframe bot_empty kohli_table (py_lower ''Top run scorers'')) \<and>
   py_in (medal1 @ '' **V Kohli**'')
     (format_enhanced_dataframe bot_empty kohli_table (py_lower ''Top run scorers'')) \<and>
   format_dataframe bot_empty kohli_table (py_lower ''Top run scorers'') =
     cricket @ '' **Top 1 Results:**'' @ NL @ NL @
     medal1 @ '' **V Kohli** - 1,250 runs'' @ NL \<and>
   py_in ''V Kohli'' (format_dataframe bot_empty kohli_table (py_lower ''Top run scorers'')) \<and>
   py_in ''1,250'' (format_dataframe bot_empty kohli_table (py_lower ''Top run scorers'')) \<and>
   py_in (medal1 @ '' **V Kohli**'')
     (format_dataframe bot_empty kohli_table (py_lower ''Top run scorers''))"
  by (rule kohli_row_formatted)

text \<open>
  Claim C8 as stated fails for the baseline formatter: its text for that table does not
  hold \<open>135.5\<close>.
\<close>

theorem kohli_row_baseline_counterexample:
  "columns kohli_table = [''batter'', ''total_runs'', ''strike_rate''] \<and>
   rows kohli_table = [[StrV ''V Kohli'', IntV 1250, FloatV (271 / 2)]] \<and>
   \<not> py_in ''135.5'' (format_dataframe bot_empty kohli_table (py_lower ''Top run scorers'')) \<and>
   \<not> py_in ''135.5'' (format_result_base bot_empty (Some kohli_table) ''Top run scorers'')"
  by code_simp

subsection \<open>The formatter reads the table and the question only\<close>

text \<open>
  Claim C9. The formatter of either variant reads the table, the question and the
  interpreter's rendering of floats, and nothing of the LLM client or the database: two
  calls on the same result and question give the same string, whatever state the chatbot
  is in at each call.
\<close>

theorem formatting_repeatable:
  assumes "float_repr b1 = float_repr b2"
  shows "format_result_enh b1 result question = format_result_enh b2 result question \<and>
         format_result_base b1 result question = format_result_base b2 result question \<and>
         format_enhanced_dataframe b1 df ql = format_enhanced_dataframe b2 df ql \<and>
         format_dataframe b1 df ql = format_dataframe b2 df ql"
proof -
  have enh: "format_enhanced_dataframe b1 t q = format_enhanced_dataframe b2 t q" for t q
    using assms by (simp add: format_enhanced_dataframe_def)
  have base: "format_dataframe b1 t q = format_dataframe b2 t q" for t q
    using assms by (simp add: format_dataframe_def)
  show ?thesis
    by (cases result) (simp_all add: format_result_enh_def format_result_base_def enh base)
qed

theorem formatting_repeatable_witness:
  "format_result_enh bot_down (Some kohli_table) ''Top run scorers'' =
     format_result_enh bot_empty (Some kohli_table) ''Top run scorers'' \<and>
   format_result_base bot_down (Some kohli_table) ''Top run scorers'' =
     format_result_base bot_empty (Some kohli_table) ''Top run scorers'' \<and>
   format_enhanced_dataframe bot_down kohli_table ''top run scorers'' =
     format_enhanced_dataframe bot_empty kohli_table ''top run scorers'' \<and>
   format_dataframe bot_down kohli_table ''top run scorers'' =
     format_dataframe bot_empty kohli_table ''top run scorers''"
proof (rule formatting_repeatable)
  show "float_repr bot_down = float_repr bot_empty"
    by (simp add: bot_down_def bot_empty_def)
qed

subsection \<open>The empty query\<close>














subsection \<open>The cleanup of the reply\<close>



lemma py_split_from_not_empty: "py_split_from sep acc s \<noteq> []"
  by (induction sep acc s rule: py_split_from.induct)
    (subst py_split_from.simps, auto split: list.splits)

lemma py_split_from_no_sep:
  "\<not> sublist sep s \<Longrightarrow> py_split_from sep acc s = [acc @ s]"
proof (induction s arbitrary: acc)
  case Nil
  then show ?case
    by (subst py_split_from.simps) auto
next
  case (Cons c cs)
  then have "\<not> prefix sep (c # cs)" "\<not> sublist sep cs"
    by (auto simp: sublist_Cons_right)
  with Cons.IH [of "acc @ [c]"] show ?case
    by (subst py_split_from.simps) simp
qed

lemma prefix_of_long_enough:
  assumes "prefix xs (ys @ zs)" "length xs \<le> length ys"
  shows "prefix xs ys"
  using assms by (metis prefix_length_prefix prefixI)

lemma py_split_from_first:
  assumes "sep \<noteq> []" "\<not> sublist sep (a @ butlast sep)"
  shows "py_split_from sep acc (a @ sep @ rest) = (acc @ a) # py_split_from sep [] rest"
  using assms(2)
proof (induction a arbitrary: acc)
  case Nil
  with assms(1) show ?case
    by (subst py_split_from.simps) simp
next
  case (Cons x a)
  have no_prefix: "\<not> prefix sep ((x # a) @ sep @ rest)"
  proof
    assume "prefix sep ((x # a) @ sep @ rest)"
    then have "prefix sep (((x # a) @ butlast sep) @ (last sep # rest))"
      using assms(1) by (metis append_butlast_last_id append.assoc append_Cons append_Nil)
    moreover have "length sep \<le> length ((x # a) @ butlast sep)"
      by simp
    ultimately have "prefix sep ((x # a) @ butlast sep)"
      by (rule prefix_of_long_enough)
    then have "sublist sep ((x # a) @ butlast sep)"
      by (rule prefix_imp_sublist)
    with Cons.prems show False by simp
  qed
  from Cons.prems have "\<not> sublist sep (a @ butlast sep)"
    by (simp add: sublist_Cons_right)
  from Cons.IH [OF this, of "acc @ [x]"] no_prefix show ?case
    by (subst py_split_from.simps) simp
qed

lemma py_split_from_two:
  assumes "sep \<noteq> []"
  shows "sublist sep s \<Longrightarrow> 2 \<le> length (py_split_from sep acc s)"
proof (induction s arbitrary: acc)
  case Nil
  with assms show ?case by simp
next
  case (Cons c cs)
  show ?case
  proof (cases "prefix sep (c # cs)")
    case True
    have "py_split_from sep [] (drop (length sep) (c # cs)) \<noteq> []"
      by (rule py_split_from_not_empty)
    then have "1 \<le> length (py_split_from sep [] (drop (length sep) (c # cs)))"
      by (cases "py_split_from sep [] (drop (length sep) (c # cs))") simp_all
    with True assms show ?thesis
      by (subst py_split_from.simps) simp
  next
    case False
    with Cons.prems have "sublist sep cs"
      by (simp add: sublist_Cons_right)
    from Cons.IH [OF this, of "acc @ [c]"] False show ?thesis
      by (subst py_split_from.simps) simp
  qed
qed

lemma fences_not_empty: "fence \<noteq> []" "fence_sql \<noteq> []"
  by (simp_all add: fence_def fence_sql_def)

text \<open>The indexing after the two membership tests never raises: the cleanup is total.\<close>

lemma clean_reply_total: "\<exists>query_code. clean_reply content = Inr query_code"
proof -
  let ?q = "py_strip content"
  have sql: "py_in fence_sql ?q \<Longrightarrow>
      \<exists>after. py_index (py_split fence_sql ?q) 1 = Inr after"
    using py_split_from_two [OF fences_not_empty(2), of ?q "[]"]
    by (simp add: py_index_def py_split_def py_in_def)
  have first: "\<exists>block. py_index (py_split fence after) 0 = Inr block" for after
    using py_split_from_not_empty [of fence "[]" after]
    by (simp add: py_index_def py_split_def)
  have plain: "py_in fence ?q \<Longrightarrow>
      \<exists>block. py_index (py_split fence ?q) 1 = Inr block"
    using py_split_from_two [OF fences_not_empty(1), of ?q "[]"]
    by (simp add: py_index_def py_split_def py_in_def)
  show ?thesis
  proof (cases "py_in fence_sql ?q")
    case True
    from sql [OF True] obtain after where a: "py_index (py_split fence_sql ?q) 1 = Inr after"
      by blast
    from first [of after] obtain block where "py_index (py_split fence after) 0 = Inr block"
      by blast
    with True a show ?thesis
      by (simp add: clean_reply_def bnd_def Let_def)
  next
    case False
    show ?thesis
    proof (cases "py_in fence ?q")
      case True
      from plain [OF True] obtain block where "py_index (py_split fence ?q) 1 = Inr block"
        by blast
      with True \<open>\<not> py_in fence_sql ?q\<close> show ?thesis
        by (simp add: clean_reply_def bnd_def Let_def)
    next
      case False
      with \<open>\<not> py_in fence_sql ?q\<close> show ?thesis
        by (simp add: clean_reply_def bnd_def Let_def)
    qed
  qed
qed

text \<open>
  A reply with one block behind the fence of SQL: the query is the text of the block,
  cleaned.
\<close>

lemma clean_reply_sql_block:
  assumes "py_strip content = pre @ fence_sql @ body @ fence @ post"
    and "\<not> sublist fence_sql (pre @ butlast fence_sql)"
    and "\<not> sublist fence_sql (body @ fence @ post)"
    and "\<not> sublist fence (body @ butlast fence)"
  shows "clean_reply content = Inr (py_strip (py_rstrip_chars '';'' (py_strip body)))"
proof -
  have "py_in fence_sql (py_strip content)"
    unfolding py_in_def assms(1) by (simp add: sublist_append_leftI)
  moreover have "py_split fence_sql (py_strip content) = [pre, body @ fence @ post]"
    unfolding py_split_def assms(1)
    by (simp add: py_split_from_first [OF fences_not_empty(2) assms(2)]
        py_split_from_no_sep [OF assms(3)])
  moreover have "py_split fence (body @ fence @ post) = body # py_split_from fence [] post"
    unfolding py_split_def
    by (simp add: py_split_from_first [OF fences_not_empty(1) assms(4)])
  ultimately show ?thesis
    by (simp add: clean_reply_def bnd_def Let_def py_index_def)
qed

text \<open>A reply with a plain fence and no fence of SQL: the text between the first two fences.\<close>

lemma clean_reply_plain_block:
  assumes "py_strip content = pre @ fence @ body @ fence @ post"
    and "\<not> sublist fence_sql (py_strip content)"
    and "\<not> sublist fence (pre @ butlast fence)"
    and "\<not> sublist fence (body @ butlast fence)"
  shows "clean_reply content = Inr (py_strip (py_rstrip_chars '';'' (py_strip body)))"
proof -
  have "py_in fence (py_strip content)"
    unfolding py_in_def assms(1) by (simp add: sublist_append_leftI)
  moreover have "\<not> py_in fence_sql (py_strip content)"
    using assms(2) by (simp add: py_in_def)
  moreover have "py_split fence (py_strip content) = pre # body # py_split_from fence [] post"
    unfolding py_split_def assms(1)
    by (simp add: py_split_from_first [OF fences_not_empty(1) assms(3)]
        py_split_from_first [OF fences_not_empty(1) assms(4)])
  ultimately show ?thesis
    by (simp add: clean_reply_def bnd_def Let_def py_index_def)
qed

text \<open>The query returned has no white space around it.\<close>

lemma last_dropWhile: "dropWhile P xs \<noteq> [] \<Longrightarrow> last (dropWhile P xs) = last xs"
  by (induction xs) (auto split: if_splits)

lemma py_strip_no_space:
  assumes "py_strip s \<noteq> []"
  shows "\<not> is_space (hd (py_strip s)) \<and> \<not> is_space (last (py_strip s))"
proof -
  let ?t = "dropWhile is_space s"
  let ?u = "dropWhile is_space (rev ?t)"
  from assms have u: "?u \<noteq> []"
    by (simp add: py_strip_def py_rstrip_def py_lstrip_def)
  then have t: "?t \<noteq> []"
    by (metis dropWhile.simps(1) rev.simps(1))
  have "last (rev ?u) = hd ?u"
    using u by (simp add: last_rev)
  moreover have "\<not> is_space (hd ?u)"
    using u by (rule hd_dropWhile)
  moreover have "hd (rev ?u) = last ?u"
    using u by (simp add: hd_rev)
  moreover have "last ?u = last (rev ?t)"
    using u by (rule last_dropWhile)
  moreover have "last (rev ?t) = hd ?t"
    using t by (simp add: last_rev)
  moreover have "\<not> is_space (hd ?t)"
    using t by (rule hd_dropWhile)
  ultimately show ?thesis
    by (simp add: py_strip_def py_rstrip_def py_lstrip_def)
qed

lemma clean_reply_no_space:
  assumes "clean_reply content = Inr query_code" "query_code \<noteq> []"
  shows "\<not> is_space (hd query_code) \<and> \<not> is_space (last query_code)"
proof -
  from assms(1) obtain t where "query_code = py_strip t"
    by (auto simp: clean_reply_def bnd_def Let_def split: sum.splits if_splits)
  with assms(2) py_strip_no_space [of t] show ?thesis
    by simp
qed

subsection \<open>Semicolons\<close>

text \<open>
  Claim C7 at the reply \<open>SELECT 1; ;\<close>: the cleanup removes the last semicolon, then the
  blank before it, and returns a query that still ends in a semicolon; this query is
  what \<^verbatim>\<open>ask\<close> hands to the executor.
\<close>

theorem semicolon_left_behind:
  "llm bot_semicolons ''top run scorers'' = Inr ''SELECT 1; ;'' \<and>
   clean_reply ''SELECT 1; ;'' = Inr ''SELECT 1;'' \<and>
   get_query_from_llm bot_semicolons ''top run scorers'' = Some ''SELECT 1;'' \<and>
   last ''SELECT 1;'' = CHR '';'' \<and>
   snd (ask_enh bot_semicolons ''top run scorers'') = [''SELECT 1;''] \<and>
   snd (ask_base bot_semicolons ''top run scorers'') = [''SELECT 1;'']"
  by code_simp

end
